theory Spec2Isabelle
  imports Complex_Main "HOL-Library.Sublist"
begin

text \<open>
  A shallow embedding of \<open>train.py\<close>, the LoRA fine-tuning script: the model identifier
  resolver, the dataset builder, the checkpoint locator, the configuration merge, \<open>main\<close>
  and the handler around it. Functions of the script are HOL functions of the same name;
  an exception is a value \<open>Inl e\<close> of a sum type; what a run does to the outside is a
  list of events; what the outside answers (files, directories, the libraries) is a
  record of functions, the \<open>world\<close>. Paths are joined as on POSIX.
\<close>

section \<open>Python strings\<close>

text \<open>
  A Python string is a sequence of Unicode code points, numbers from 0 to 0x10FFFF. The
  literals of the script are ASCII and are written \<open>py ''...''\<close>.
\<close>

type_synonym pystr = "int list"

definition py :: "string \<Rightarrow> pystr" where
  "py s = map of_char s"

text \<open>The code points \<open>str.strip()\<close> removes, those for which \<open>str.isspace\<close> holds:
  U+0009 to U+000D, U+001C to U+0020, U+0085, U+00A0, U+1680, U+2000 to U+200A, U+2028,
  U+2029, U+202F, U+205F and U+3000.\<close>

definition is_space :: "int \<Rightarrow> bool" where
  "is_space c =
     ((0x09 \<le> c \<and> c \<le> 0x0D) \<or> (0x1C \<le> c \<and> c \<le> 0x20) \<or> c = 0x85 \<or> c = 0xA0
      \<or> c = 0x1680 \<or> (0x2000 \<le> c \<and> c \<le> 0x200A) \<or> c = 0x2028 \<or> c = 0x2029
      \<or> c = 0x202F \<or> c = 0x205F \<or> c = 0x3000)"

definition strip_with :: "(int \<Rightarrow> bool) \<Rightarrow> pystr \<Rightarrow> pystr" where
  "strip_with blank s = rev (dropWhile blank (rev (dropWhile blank s)))"

definition strip :: "pystr \<Rightarrow> pystr" where
  "strip s = strip_with is_space s"

definition is_ascii :: "int \<Rightarrow> bool" where
  "is_ascii c = (0 \<le> c \<and> c < 128)"

definition lower_ascii :: "int \<Rightarrow> int" where
  "lower_ascii c = (if 65 \<le> c \<and> c \<le> 90 then c + 32 else c)"

text \<open>\<open>s.lower()\<close>. On a string of ASCII code points it maps \<open>A\<close> to \<open>Z\<close> to \<open>a\<close> to
  \<open>z\<close>. On any other string the result is what the interpreter's Unicode database
  says (the mapping there depends on the neighbours of a letter); it is the parameter
  \<open>ul\<close>, about which nothing is assumed.\<close>

definition lower :: "(pystr \<Rightarrow> pystr) \<Rightarrow> pystr \<Rightarrow> pystr" where
  "lower ul s = (if list_all is_ascii s then map lower_ascii s else ul s)"

text \<open>\<open>s.replace(" ", "")\<close>: every space character U+0020 is removed.\<close>

definition remove_spaces :: "pystr \<Rightarrow> pystr" where
  "remove_spaces s = filter (\<lambda>c. c \<noteq> 0x20) s"

section \<open>normalize_base_model_id\<close>

definition aliases :: "(pystr \<times> pystr) list" where
  "aliases =
    [(py ''llama3:8b'', py ''meta-llama/Meta-Llama-3-8B-Instruct''),
     (py ''llama3:instruct'', py ''meta-llama/Meta-Llama-3-8B-Instruct''),
     (py ''llama3.2:1b-instruct'', py ''meta-llama/Llama-3.2-1B-Instruct''),
     (py ''llama3.2:3b-instruct'', py ''meta-llama/Llama-3.2-3B-Instruct''),
     (py ''qwen2.5:0.5b'', py ''Qwen/Qwen2.5-0.5B-Instruct''),
     (py ''qwen2.5:1.5b'', py ''Qwen/Qwen2.5-1.5B-Instruct'')]"

text \<open>\<open>aliases.get(key, default)\<close>\<close>

definition alias_get :: "pystr \<Rightarrow> pystr \<Rightarrow> pystr" where
  "alias_get key dflt = (case map_of aliases key of Some v \<Rightarrow> v | None \<Rightarrow> dflt)"

definition normalize_base_model_id :: "(pystr \<Rightarrow> pystr) \<Rightarrow> pystr \<Rightarrow> pystr" where
  "normalize_base_model_id ul s =
     (if s = [] then s
      else let key = remove_spaces (lower ul (strip s)) in alias_get key (strip s))"

text \<open>The resolver as the specification words it: trim whitespace, remove internal
  spaces, lowercase, look the key up, and pass the trimmed input through when no alias
  matches.\<close>

definition resolver_spec :: "(pystr \<Rightarrow> pystr) \<Rightarrow> pystr \<Rightarrow> pystr" where
  "resolver_spec ul s =
     (let trimmed = strip s; key = lower ul (remove_spaces trimmed)
      in case map_of aliases key of Some v \<Rightarrow> v | None \<Rightarrow> trimmed)"

section \<open>Exceptions, Python values, \<open>int()\<close>\<close>

text \<open>The exceptions (subclasses of \<open>Exception\<close>) a run can raise. Those raised by the
  script's own expressions are the builtin ones; \<open>OSError\<close> and \<open>LibraryError\<close> carry the
  message of an error raised by the operating system or by an imported library.\<close>

datatype error =
    ValueError
  | TypeError
  | AttributeError
  | OverflowError
  | OSError string
  | LibraryError string

text \<open>A finite float is represented by its exact rational value.\<close>

datatype pyfloat = Finite rat | PosInf | NegInf | NaN

text \<open>The values \<open>yaml.safe_load\<close> and \<open>json.loads\<close> produce.\<close>

datatype pyval =
    PNone
  | PBool bool
  | PInt int
  | PFloat pyfloat
  | PStr pystr
  | PList "pyval list"
  | PDict "(pyval \<times> pyval) list"

text \<open>Truth value testing, as done by \<open>if x\<close>, \<open>not x\<close> and \<open>x or y\<close>.\<close>

fun truthy :: "pyval \<Rightarrow> bool" where
  "truthy PNone = False"
| "truthy (PBool b) = b"
| "truthy (PInt n) = (n \<noteq> 0)"
| "truthy (PFloat f) = (f \<noteq> Finite 0)"
| "truthy (PStr s) = (s \<noteq> [])"
| "truthy (PList xs) = (xs \<noteq> [])"
| "truthy (PDict kvs) = (kvs \<noteq> [])"

definition py_or :: "pyval \<Rightarrow> pyval \<Rightarrow> pyval" where
  "py_or x y = (if truthy x then x else y)"

text \<open>\<open>d.get(key)\<close> and \<open>d.get(key, default)\<close> on a dictionary given by its items.\<close>

definition dict_get :: "(pyval \<times> pyval) list \<Rightarrow> pystr \<Rightarrow> pyval \<Rightarrow> pyval" where
  "dict_get d key dflt = (case map_of d (PStr key) of Some v \<Rightarrow> v | None \<Rightarrow> dflt)"

text \<open>
  \<open>int(s)\<close> on a string. The interpreter first replaces every non-ASCII whitespace code
  point by a space and every non-ASCII decimal digit by its ASCII digit; then it skips
  the C whitespace (U+0009 to U+000D and the space) at both ends, and reads an optional
  sign and the digits. So the separators U+001C to U+001F, which \<open>strip\<close> removes, are
  not skipped here. The decimal value of a non-ASCII digit comes from the interpreter's
  Unicode database: the parameter \<open>dec\<close>.
\<close>

definition int_space :: "int \<Rightarrow> bool" where
  "int_space c = (is_space c \<and> \<not> (0x1C \<le> c \<and> c \<le> 0x1F))"

definition digit_of :: "(int \<Rightarrow> int option) \<Rightarrow> int \<Rightarrow> int option" where
  "digit_of dec c =
     (if 48 \<le> c \<and> c \<le> 57 then Some (c - 48)
      else if 128 \<le> c \<and> \<not> is_space c then dec c
      else None)"

text \<open>The largest number of digits \<open>int\<close> converts (the interpreter's default limit).\<close>

definition max_str_digits :: int where
  "max_str_digits = 4300"

text \<open>The digits of an integer literal: at least one digit, with single underscores
  allowed between digits, and no more digits than the limit. The flag tells whether the
  previous character was a digit; the counter is the number of digits read.\<close>

fun digits_value :: "(int \<Rightarrow> int option) \<Rightarrow> int \<Rightarrow> bool \<Rightarrow> int \<Rightarrow> pystr \<Rightarrow> int option" where
  "digits_value dec acc prev n [] = (if prev \<and> n \<le> max_str_digits then Some acc else None)"
| "digits_value dec acc prev n (c # cs) =
     (case digit_of dec c of
        Some d \<Rightarrow> digits_value dec (10 * acc + d) True (n + 1) cs
      | None \<Rightarrow> if c = of_char CHR ''_'' \<and> prev then digits_value dec acc False n cs
                else None)"

text \<open>\<open>None\<close> stands for the \<open>ValueError\<close> Python raises.\<close>

definition int_of_str :: "(int \<Rightarrow> int option) \<Rightarrow> pystr \<Rightarrow> int option" where
  "int_of_str dec s =
     (case strip_with int_space s of
        [] \<Rightarrow> None
      | c # cs \<Rightarrow>
          if c = of_char CHR ''-'' then map_option uminus (digits_value dec 0 False 0 cs)
          else if c = of_char CHR ''+'' then digits_value dec 0 False 0 cs
          else digits_value dec 0 False 0 (c # cs))"

definition trunc_rat :: "rat \<Rightarrow> int" where
  "trunc_rat q = (if 0 \<le> q then \<lfloor>q\<rfloor> else \<lceil>q\<rceil>)"

fun py_int :: "(int \<Rightarrow> int option) \<Rightarrow> pyval \<Rightarrow> error + int" where
  "py_int dec PNone = Inl TypeError"
| "py_int dec (PBool b) = Inr (if b then 1 else 0)"
| "py_int dec (PInt n) = Inr n"
| "py_int dec (PFloat (Finite q)) = Inr (trunc_rat q)"
| "py_int dec (PFloat NaN) = Inl ValueError"
| "py_int dec (PFloat f) = Inl OverflowError"
| "py_int dec (PStr s) = (case int_of_str dec s of None \<Rightarrow> Inl ValueError | Some n \<Rightarrow> Inr n)"
| "py_int dec (PList xs) = Inl TypeError"
| "py_int dec (PDict kvs) = Inl TypeError"

section \<open>Paths\<close>

text \<open>\<open>os.path.join(a, b)\<close> with the POSIX separator.\<close>

definition path_join :: "pystr \<Rightarrow> pystr \<Rightarrow> pystr" where
  "path_join a b =
     (case b of
        c # cs \<Rightarrow> if c = of_char CHR ''/'' then b
                  else if a = [] \<or> last a = of_char CHR ''/'' then a @ b else a @ py ''/'' @ b
      | [] \<Rightarrow> if a = [] \<or> last a = of_char CHR ''/'' then a else a @ py ''/'')"

section \<open>Locating the latest checkpoint\<close>

definition startswith :: "pystr \<Rightarrow> pystr \<Rightarrow> bool" where
  "startswith s p = prefix p s"

text \<open>\<open>s.split(sep)\<close> for a one-character separator.\<close>

fun split_on :: "int \<Rightarrow> pystr \<Rightarrow> pystr list" where
  "split_on sep [] = [[]]"
| "split_on sep (c # cs) =
     (if c = sep then [] # split_on sep cs
      else (case split_on sep cs of
              [] \<Rightarrow> [[c]]
            | p # ps \<Rightarrow> (c # p) # ps))"

text \<open>The sort key \<open>lambda n: int(n.split("-")[-1]) if "-" in n else -1\<close>.\<close>

definition ckpt_sort_key :: "(int \<Rightarrow> int option) \<Rightarrow> pystr \<Rightarrow> error + int" where
  "ckpt_sort_key dec n =
     (if of_char CHR ''-'' \<in> set n
      then py_int dec (PStr (last (split_on (of_char CHR ''-'') n)))
      else Inr (- 1))"

text \<open>\<open>list.sort(key=...)\<close> first computes the key of every element, from left to
  right, so the first failing key raises; then it sorts stably by the keys.\<close>

fun sort_keys :: "(int \<Rightarrow> int option) \<Rightarrow> pystr list \<Rightarrow> error + int list" where
  "sort_keys dec [] = Inr []"
| "sort_keys dec (n # ns) =
     (case ckpt_sort_key dec n of
        Inl e \<Rightarrow> Inl e
      | Inr k \<Rightarrow> (case sort_keys dec ns of Inl e \<Rightarrow> Inl e | Inr ks \<Rightarrow> Inr (k # ks)))"

definition sort_ckpts :: "(int \<Rightarrow> int option) \<Rightarrow> pystr list \<Rightarrow> error + pystr list" where
  "sort_ckpts dec ns =
     (case sort_keys dec ns of
        Inl e \<Rightarrow> Inl e
      | Inr ks \<Rightarrow> Inr (map snd (sort_key fst (zip ks ns))))"

text \<open>Lines 221 to 224 of \<open>main\<close>, on the names \<open>os.listdir(hf_out)\<close> returned: the
  value of \<open>ckpt\<close> afterwards, or the exception raised.\<close>

definition latest_checkpoint ::
    "(int \<Rightarrow> int option) \<Rightarrow> pystr \<Rightarrow> pystr list \<Rightarrow> error + pystr option" where
  "latest_checkpoint dec hf_out listing =
     (let ckpts = filter (\<lambda>d. startswith d (py ''checkpoint-'')) listing in
      if ckpts \<noteq> [] then
        (case sort_ckpts dec ckpts of
           Inl e \<Rightarrow> Inl e
         | Inr ordered \<Rightarrow> Inr (Some (path_join hf_out (last ordered))))
      else Inr None)"

section \<open>The world outside the script\<close>

record tok_opts =
  truncation :: bool
  padding :: pystr
  opt_max_length :: int

text \<open>What the tokenizer returns for a batch of texts: one sequence per text in each
  column.\<close>

record batch_encoding =
  input_ids :: "int list list"
  attention_mask :: "int list list"

type_synonym tokenizer = "pystr list \<Rightarrow> tok_opts \<Rightarrow> error + batch_encoding"

record tok_output = batch_encoding +
  labels :: "int list list"

record tokenized_example =
  ex_input_ids :: "int list"
  ex_attention_mask :: "int list"
  ex_labels :: "int list"

record training_arguments =
  output_dir :: pystr
  per_device_train_batch_size :: int
  num_train_epochs :: int
  learning_rate :: pyfloat
  gradient_accumulation_steps :: int
  logging_steps :: int
  save_strategy :: pystr
  save_total_limit :: int
  report_to :: "pystr list"
  dataloader_pin_memory :: bool
  fp16 :: bool
  bf16 :: bool

record adapter_config =
  base_model_name_or_path :: pystr
  bias :: pystr
  inference_mode :: bool
  lora_alpha :: int
  lora_dropout :: rat
  peft_type :: pystr
  r :: int
  target_modules :: "pystr list"
  task_type :: pystr

text \<open>
  The file system, the imported libraries, the builtin \<open>float\<close> and the interpreter's
  Unicode database (the lower-casing of strings that are not ASCII, the decimal values of
  digits that are not ASCII) are not part of the script. Each of their calls is answered
  by the world: the value returned, or the exception raised. A world is fixed for one
  run.
\<close>

record world =
  unicode_lower :: "pystr \<Rightarrow> pystr"
  unicode_decimal :: "int \<Rightarrow> int option"
  yaml_load :: "pystr \<Rightarrow> error + pyval"
  float_conv :: "pyval \<Rightarrow> error + pyfloat"
  os_path_exists :: "pyval \<Rightarrow> error + bool"
  os_makedirs :: "pystr \<Rightarrow> error option"
  import_libraries :: "error option"
  cuda_is_available :: bool
  tokenizer_from_pretrained :: "pystr \<Rightarrow> error + tokenizer"
  import_datasets :: "error option"
  read_lines :: "pyval \<Rightarrow> error + pystr list"
  json_loads :: "pystr \<Rightarrow> error + pyval"
  model_from_pretrained :: "pystr \<Rightarrow> error option"
  get_peft_model :: "error option"
  make_trainer :: "training_arguments \<Rightarrow> tokenized_example list \<Rightarrow> error option"
  os_path_isdir :: "pystr \<Rightarrow> bool"
  os_listdir :: "pystr \<Rightarrow> error + pystr list"
  trainer_train :: "pystr option \<Rightarrow> error option"
  save_pretrained :: "pystr \<Rightarrow> error option"
  exists_after_save :: "pystr \<Rightarrow> bool"
  write_file :: "pystr \<Rightarrow> error option"
  append_file :: "pystr \<Rightarrow> error option"

section \<open>load_yaml_cfg, load_jsonl_rows, build_dataset\<close>

text \<open>\<open>yaml_load\<close> answers for opening the file and \<open>yaml.safe_load(f)\<close>;
  \<open>load_yaml_cfg\<close> returns that value \<open>or {}\<close>.\<close>

definition load_yaml_cfg :: "world \<Rightarrow> pystr \<Rightarrow> error + pyval" where
  "load_yaml_cfg w path =
     (case yaml_load w path of
        Inl e \<Rightarrow> Inl e
      | Inr v \<Rightarrow> Inr (py_or v (PDict [])))"

text \<open>The loop of \<open>load_jsonl_rows\<close> over the lines of the file.\<close>

fun parse_rows :: "world \<Rightarrow> pystr list \<Rightarrow> error + pyval list" where
  "parse_rows w [] = Inr []"
| "parse_rows w (line # rest) =
     (let s = strip line in
      if s = [] then parse_rows w rest
      else (case json_loads w s of
              Inl e \<Rightarrow> Inl e
            | Inr v \<Rightarrow> (case parse_rows w rest of
                          Inl e \<Rightarrow> Inl e
                        | Inr rows \<Rightarrow> Inr (v # rows))))"

definition load_jsonl_rows :: "world \<Rightarrow> pyval \<Rightarrow> error + pyval list" where
  "load_jsonl_rows w path =
     (case read_lines w path of
        Inl e \<Rightarrow> Inl e
      | Inr ls \<Rightarrow> parse_rows w ls)"

text \<open>\<open>(ex.get(k) or "").strip()\<close>: \<open>AttributeError\<close> when the value is true and not a
  string.\<close>

definition field_text :: "(pyval \<times> pyval) list \<Rightarrow> pystr \<Rightarrow> error + pystr" where
  "field_text ex k =
     (case py_or (dict_get ex k PNone) (PStr []) of
        PStr s \<Rightarrow> Inr (strip s)
      | _ \<Rightarrow> Inl AttributeError)"

text \<open>The \<open>text\<close> entry \<open>to_text\<close> returns; a row that is not a dictionary has no
  \<open>get\<close>.\<close>

definition to_text :: "pyval \<Rightarrow> error + pystr" where
  "to_text ex =
     (case ex of
        PDict d \<Rightarrow>
          (case field_text d (py ''prompt'') of
             Inl e \<Rightarrow> Inl e
           | Inr prompt \<Rightarrow>
               (case field_text d (py ''response'') of
                  Inl e \<Rightarrow> Inl e
                | Inr resp \<Rightarrow> Inr (py ''User: '' @ prompt @ py ''\<newline>Assistant: '' @ resp)))
      | _ \<Rightarrow> Inl AttributeError)"

text \<open>\<open>list(map(to_text, rows))\<close>\<close>

fun map_to_text :: "pyval list \<Rightarrow> error + pystr list" where
  "map_to_text [] = Inr []"
| "map_to_text (ex # rows) =
     (case to_text ex of
        Inl e \<Rightarrow> Inl e
      | Inr t \<Rightarrow> (case map_to_text rows of
                    Inl e \<Rightarrow> Inl e
                  | Inr ts \<Rightarrow> Inr (t # ts)))"

text \<open>The inner function \<open>tok\<close> of \<open>build_dataset\<close>, on the texts of one batch.\<close>

definition tok :: "tokenizer \<Rightarrow> int \<Rightarrow> pystr list \<Rightarrow> error + tok_output" where
  "tok tokenizer max_length texts =
     (case tokenizer texts
             \<lparr>truncation = True, padding = py ''max_length'', opt_max_length = max_length\<rparr> of
        Inl e \<Rightarrow> Inl e
      | Inr out \<Rightarrow>
          Inr \<lparr>input_ids = input_ids out, attention_mask = attention_mask out,
               labels = input_ids out\<rparr>)"

text \<open>\<open>Dataset.map(tok, batched=True, remove_columns=["text"])\<close> hands \<open>tok\<close> the texts
  in batches of 1000 (the library's default), takes the returned columns apart into one
  example per position, and refuses columns of different lengths. A dataset made from no
  row has no column: \<open>map\<close> then raises \<open>ValueError\<close> for the column \<open>text\<close> it is
  asked to remove.\<close>

function batches :: "nat \<Rightarrow> 'a list \<Rightarrow> 'a list list" where
  "batches n xs = (if n = 0 \<or> xs = [] then [] else take n xs # batches n (drop n xs))"
  by pat_completeness auto
termination
  by (relation "measure (\<lambda>(n, xs). length xs)") auto

declare batches.simps [simp del]

definition examples_of :: "tok_output \<Rightarrow> error + tokenized_example list" where
  "examples_of out =
     (if length (attention_mask out) = length (input_ids out)
         \<and> length (labels out) = length (input_ids out)
      then Inr (map (\<lambda>(i, m, l). \<lparr>ex_input_ids = i, ex_attention_mask = m, ex_labels = l\<rparr>)
                    (zip (input_ids out) (zip (attention_mask out) (labels out))))
      else Inl (LibraryError ''columns of different lengths''))"

fun map_batches :: "tokenizer \<Rightarrow> int \<Rightarrow> pystr list list \<Rightarrow> error + tokenized_example list" where
  "map_batches tokenizer max_length [] = Inr []"
| "map_batches tokenizer max_length (b # bs) =
     (case tok tokenizer max_length b of
        Inl e \<Rightarrow> Inl e
      | Inr out \<Rightarrow>
          (case examples_of out of
             Inl e \<Rightarrow> Inl e
           | Inr exs \<Rightarrow>
               (case map_batches tokenizer max_length bs of
                  Inl e \<Rightarrow> Inl e
                | Inr rest \<Rightarrow> Inr (exs @ rest))))"

definition build_dataset :: "world \<Rightarrow> pyval \<Rightarrow> tokenizer \<Rightarrow> int \<Rightarrow> error + tokenized_example list" where
  "build_dataset w jsonl_path tokenizer max_length =
     (case import_datasets w of
        Some e \<Rightarrow> Inl e
      | None \<Rightarrow>
          (case load_jsonl_rows w jsonl_path of
             Inl e \<Rightarrow> Inl e
           | Inr rows \<Rightarrow>
               (case map_to_text rows of
                  Inl e \<Rightarrow> Inl e
                | Inr texts \<Rightarrow>
                    if texts = [] then Inl ValueError
                    else map_batches tokenizer max_length (batches 1000 texts))))"

section \<open>Runs: a trace of effects and a result\<close>

text \<open>The command line as \<open>argparse\<close> returns it.\<close>

datatype resume_mode = Auto | Never | Force

record args =
  arg_config :: "pystr option"
  arg_data :: "pystr option"
  arg_base :: pystr
  arg_outdir :: pystr
  arg_epochs :: int
  arg_lr :: pyfloat
  arg_bsz :: int
  arg_max_length :: int
  arg_resume :: resume_mode

text \<open>The local variables of \<open>main\<close> after the configuration merge.\<close>

record settings =
  data_path :: pyval
  base_model_raw :: pystr
  epochs :: int
  lr :: pyfloat
  outdir :: pyval
  bsz :: int
  max_length :: int

text \<open>What a run does to the outside, in order: the lines it logs (one constructor per
  \<open>log\<close> call or block of calls, with the values printed) and the calls it makes.\<close>

datatype event =
    LogBaseModel pystr pystr
  | LogDatasetNotFound pyval
  | LogBanner settings pystr
  | LogStep nat
  | LogResume pystr
  | LogAdapterMissing
  | LogArtifactsReady pystr
  | MakeDirs pystr
  | ImportLibraries
  | LoadTokenizer pystr
  | LoadModel pystr
  | ApplyLora
  | CreateTrainer training_arguments "tokenized_example list"
  | Train "pystr option"
  | SavePretrained pystr
  | WriteAdapterConfig pystr adapter_config
  | WriteFile pystr pystr
  | AppendErrorText pystr error

text \<open>A piece of the script takes the trace so far and gives a value or an exception,
  with the trace extended.\<close>

type_synonym 'a prog = "event list \<Rightarrow> (error + 'a) \<times> event list"

definition ret :: "'a \<Rightarrow> 'a prog" where
  "ret x = (\<lambda>t. (Inr x, t))"

definition raise :: "error \<Rightarrow> 'a prog" where
  "raise e = (\<lambda>t. (Inl e, t))"

definition lift :: "error + 'a \<Rightarrow> 'a prog" where
  "lift v = (\<lambda>t. (v, t))"

definition emit :: "event \<Rightarrow> unit prog" where
  "emit ev = (\<lambda>t. (Inr (), t @ [ev]))"

text \<open>A call to the outside: it is recorded, and raises when the world says so.\<close>

definition attempt :: "event \<Rightarrow> error option \<Rightarrow> unit prog" where
  "attempt ev answer =
     (\<lambda>t. case answer of None \<Rightarrow> (Inr (), t @ [ev]) | Some e \<Rightarrow> (Inl e, t @ [ev]))"

definition bind :: "'a prog \<Rightarrow> ('a \<Rightarrow> 'b prog) \<Rightarrow> 'b prog" where
  "bind m f = (\<lambda>t. case m t of (Inl e, t') \<Rightarrow> (Inl e, t') | (Inr x, t') \<Rightarrow> f x t')"

definition andthen :: "unit prog \<Rightarrow> 'b prog \<Rightarrow> 'b prog" where
  "andthen m k = bind m (\<lambda>_. k)"

section \<open>main\<close>

definition opt_str :: "pystr option \<Rightarrow> pyval" where
  "opt_str v = (case v of None \<Rightarrow> PNone | Some s \<Rightarrow> PStr s)"

text \<open>\<open>float(v)\<close>: a float is returned as it is, any other value is the world's answer.\<close>

definition py_float :: "world \<Rightarrow> pyval \<Rightarrow> error + pyfloat" where
  "py_float w v = (case v of PFloat f \<Rightarrow> Inr f | _ \<Rightarrow> float_conv w v)"

text \<open>The configuration merge, lines 102 to 114. With a configuration file the
  statements run in order and the first failing one raises; a loaded value that is not
  a dictionary has no \<open>get\<close>.\<close>

definition merge_cfg :: "args \<Rightarrow> world \<Rightarrow> (pyval \<times> pyval) list \<Rightarrow> error + settings" where
  "merge_cfg a w cfg =
     (let dp = py_or (dict_get cfg (py ''dataset_path'') PNone) (opt_str (arg_data a)) in
      case py_or (dict_get cfg (py ''base_model'') PNone) (PStr (arg_base a)) of
        PStr b \<Rightarrow>
          (case py_int (unicode_decimal w) (dict_get cfg (py ''epochs'') (PInt (arg_epochs a))) of
             Inl e \<Rightarrow> Inl e
           | Inr ep \<Rightarrow>
          (case py_float w (dict_get cfg (py ''learning_rate'') (PFloat (arg_lr a))) of
             Inl e \<Rightarrow> Inl e
           | Inr rate \<Rightarrow>
          (let od = dict_get cfg (py ''output_dir'') (PStr (arg_outdir a)) in
           case py_int (unicode_decimal w) (dict_get cfg (py ''batch_size'') (dict_get cfg (py ''bsz'') (PInt (arg_bsz a)))) of
             Inl e \<Rightarrow> Inl e
           | Inr bs \<Rightarrow>
          (case py_int (unicode_decimal w) (dict_get cfg (py ''max_length'') (PInt (arg_max_length a))) of
             Inl e \<Rightarrow> Inl e
           | Inr ml \<Rightarrow>
               Inr \<lparr>data_path = dp, base_model_raw = strip b, epochs = ep, lr = rate,
                    outdir = od, bsz = bs, max_length = ml\<rparr>))))
      | _ \<Rightarrow> Inl AttributeError)"

definition cli_settings :: "args \<Rightarrow> settings" where
  "cli_settings a =
     \<lparr>data_path = opt_str (arg_data a), base_model_raw = strip (arg_base a),
      epochs = arg_epochs a, lr = arg_lr a, outdir = PStr (arg_outdir a),
      bsz = arg_bsz a, max_length = arg_max_length a\<rparr>"

definition resolve :: "args \<Rightarrow> world \<Rightarrow> error + settings" where
  "resolve a w =
     (if truthy (opt_str (arg_config a)) then
        (case load_yaml_cfg w (the (arg_config a)) of
           Inl e \<Rightarrow> Inl e
         | Inr (PDict cfg) \<Rightarrow> merge_cfg a w cfg
         | Inr _ \<Rightarrow> Inl AttributeError)
      else Inr (cli_settings a))"

text \<open>\<open>not data_path or not os.path.exists(data_path)\<close>\<close>

definition not_found :: "world \<Rightarrow> pyval \<Rightarrow> bool prog" where
  "not_found w p =
     (if \<not> truthy p then ret True
      else bind (lift (os_path_exists w p)) (\<lambda>there. ret (\<not> there)))"

text \<open>\<open>os.makedirs(p, exist_ok=True)\<close>: a value that is not a string is no path.\<close>

definition makedirs :: "world \<Rightarrow> pyval \<Rightarrow> pystr prog" where
  "makedirs w p =
     (case p of
        PStr d \<Rightarrow> andthen (attempt (MakeDirs d) (os_makedirs w d)) (ret d)
      | _ \<Rightarrow> raise TypeError)"

definition training_args :: "world \<Rightarrow> pystr \<Rightarrow> settings \<Rightarrow> training_arguments" where
  "training_args w hf_out s =
     \<lparr>output_dir = hf_out, per_device_train_batch_size = bsz s,
      num_train_epochs = epochs s, learning_rate = lr s,
      gradient_accumulation_steps = 1, logging_steps = 5, save_strategy = py ''epoch'',
      save_total_limit = 2, report_to = [], dataloader_pin_memory = cuda_is_available w,
      fp16 = cuda_is_available w, bf16 = False\<rparr>"

definition fallback :: "pystr \<Rightarrow> adapter_config" where
  "fallback base_model =
     \<lparr>base_model_name_or_path = base_model, bias = py ''none'', inference_mode = True,
      lora_alpha = 16, lora_dropout = 5 / 100, peft_type = py ''LORA'', r = 8,
      target_modules = [py ''q_proj'', py ''k_proj'', py ''v_proj'', py ''o_proj'', py ''gate_proj'',
                        py ''up_proj'', py ''down_proj''],
      task_type = py ''CAUSAL_LM''\<rparr>"

text \<open>The text written to the Modelfile, lines 257 to 262.\<close>

definition modelfile_text :: pystr where
  "modelfile_text =
     py ''FROM llama3:8b\<newline>'' @
     py ''ADAPTER ./adapter_model.safetensors\<newline>\<newline>'' @
     py ''SYSTEM \"You are a concise E-commerce Returns & Refunds assistant. Stick strictly to policy.\"\<newline>\<newline>'' @
     py ''TEMPLATE \"User: {{ {{ .Prompt }} }}\<newline>Assistant:\"\<newline>\<newline>'' @
     py ''PARAMETER temperature 0.2\<newline>'' @
     py ''PARAMETER num_predict 256\<newline>''"

text \<open>Lines 219 to 224: the checkpoint to resume from.\<close>

definition find_ckpt :: "world \<Rightarrow> pystr \<Rightarrow> error + pystr option" where
  "find_ckpt w hf_out =
     (if os_path_isdir w hf_out then
        (case os_listdir w hf_out of
           Inl e \<Rightarrow> Inl e
         | Inr listing \<Rightarrow> latest_checkpoint (unicode_decimal w) hf_out listing)
      else Inr None)"

text \<open>Lines 226 to 230. \<open>if ckpt\<close> holds for a path that is not empty.\<close>

definition start_training :: "world \<Rightarrow> pystr option \<Rightarrow> unit prog" where
  "start_training w ckpt =
     (if ckpt \<noteq> None \<and> ckpt \<noteq> Some [] then
        andthen (emit (LogResume (the ckpt))) (attempt (Train ckpt) (trainer_train w ckpt))
      else attempt (Train None) (trainer_train w None))"

text \<open>
  \<open>main\<close> from the parsed arguments on. The calls whose failure the script ignores
  (the thread count, gradient checkpointing) and the assignments to the tokenizer's and
  the model's pad token have no effect on the run and are left out.
\<close>

definition main :: "args \<Rightarrow> world \<Rightarrow> int prog" where
  "main a w =
     bind (lift (resolve a w)) (\<lambda>s.
     let base_model = normalize_base_model_id (unicode_lower w) (base_model_raw s) in
     andthen (emit (LogBaseModel (base_model_raw s) base_model)) (
     bind (not_found w (data_path s)) (\<lambda>missing.
     if missing then andthen (emit (LogDatasetNotFound (data_path s))) (ret 1)
     else
     bind (makedirs w (outdir s)) (\<lambda>out.
     let hf_out = path_join out (py ''hf_out'') in
     andthen (attempt (MakeDirs hf_out) (os_makedirs w hf_out)) (
     andthen (emit (LogBanner s base_model)) (
     andthen (attempt ImportLibraries (import_libraries w)) (
     andthen (emit (LogStep 1)) (
     andthen (emit (LoadTokenizer base_model)) (
     bind (lift (tokenizer_from_pretrained w base_model)) (\<lambda>tokenizer.
     andthen (emit (LogStep 2)) (
     bind (lift (build_dataset w (data_path s) tokenizer (max_length s))) (\<lambda>train_ds.
     andthen (emit (LogStep 3)) (
     andthen (attempt (LoadModel base_model) (model_from_pretrained w base_model)) (
     andthen (emit (LogStep 4)) (
     andthen (attempt ApplyLora (get_peft_model w)) (
     andthen (emit (LogStep 5)) (
     let args_train = training_args w hf_out s in
     andthen (attempt (CreateTrainer args_train train_ds) (make_trainer w args_train train_ds)) (
     bind (lift (find_ckpt w hf_out)) (\<lambda>ckpt.
     andthen (start_training w ckpt) (
     andthen (emit (LogStep 6)) (
     andthen (attempt (SavePretrained out) (save_pretrained w out)) (
     let adapter = path_join out (py ''adapter_model.safetensors'');
         cfg = path_join out (py ''adapter_config.json'') in
     if \<not> exists_after_save w adapter then andthen (emit LogAdapterMissing) (ret 1)
     else
     andthen (if \<not> exists_after_save w cfg
              then attempt (WriteAdapterConfig cfg (fallback base_model)) (write_file w cfg)
              else ret ()) (
     let modelfile = path_join out (py ''Modelfile'') in
     andthen (attempt (WriteFile modelfile modelfile_text) (write_file w modelfile)) (
     andthen (emit (LogArtifactsReady out)) (
     ret 0)))))))))))))))))))))))))"

section \<open>The script: \<open>sys.exit(main())\<close> and the handler around it\<close>

datatype outcome = Exit int | Uncaught error


text \<open>The loop over \<open>sys.argv\<close>: the argument after the first \<open>--outdir\<close> that has
  one.\<close>

fun scan_outdir :: "pystr list \<Rightarrow> pystr option" where
  "scan_outdir (x # y # rest) = (if x = py ''--outdir'' then Some y else scan_outdir (y # rest))"
| "scan_outdir _ = None"

text \<open>The body of the inner \<open>try\<close>; whatever it raises is dropped.\<close>

definition write_marker :: "world \<Rightarrow> pystr list \<Rightarrow> error \<Rightarrow> unit prog" where
  "write_marker w argv e =
     (case scan_outdir argv of
        None \<Rightarrow> ret ()
      | Some d \<Rightarrow>
          if d \<noteq> [] then
            andthen (attempt (MakeDirs d) (os_makedirs w d)) (
            let marker = path_join d (py ''error.txt'') in
            attempt (AppendErrorText marker e) (append_file w marker))
          else ret ())"

text \<open>\<open>sys.exit(n)\<close> raises \<open>SystemExit\<close>, which the handler for \<open>Exception\<close> does not
  catch: the process ends with status \<open>n\<close>. An exception of \<open>main\<close> is reported and
  raised again.\<close>

definition script :: "args \<Rightarrow> pystr list \<Rightarrow> world \<Rightarrow> outcome \<times> event list" where
  "script a argv w =
     (case main a w [] of
        (Inr n, t) \<Rightarrow> (Exit n, t)
      | (Inl e, t) \<Rightarrow> (Uncaught e, snd (write_marker w argv e t)))"

section \<open>Concrete runs\<close>

text \<open>A tokenizer with one token per code point, which truncates and pads as the options
  ask, with padding token 0.\<close>

definition char_tokenizer :: tokenizer where
  "char_tokenizer texts opts =
     (let n = nat (opt_max_length opts);
          ids = (\<lambda>t. if truncation opts then take n t else t);
          fill = (\<lambda>t. if padding opts = py ''max_length''
                       then replicate (n - length (ids t)) 0 else [])
      in Inr \<lparr>input_ids = map (\<lambda>t. ids t @ fill t) texts,
              attention_mask = map (\<lambda>t. replicate (length (ids t)) 1 @ fill t) texts\<rparr>)"

definition sample_line :: pystr where
  "sample_line = py ''{\"prompt\": \" How do I return an item? \", \"response\": \"Use the portal.\"}''"

definition sample_row :: pyval where
  "sample_row = PDict [(PStr (py ''prompt''), PStr (py '' How do I return an item? '')),
                       (PStr (py ''response''), PStr (py ''Use the portal.''))]"

text \<open>A world where every call succeeds: the dataset \<open>data.jsonl\<close> has the given
  lines, the directory \<open>hf_out\<close> the given entries, the configuration file \<open>run.yaml\<close>
  the given content, and saving leaves the adapter's weights and configuration behind.
  Of the Unicode database it has the Arabic-Indic digits U+0660 to U+0669; no string of
  the runs below has a letter outside ASCII, so its \<open>unicode_lower\<close> is never asked.\<close>

definition calm_world :: "pystr list \<Rightarrow> pystr list \<Rightarrow> pyval \<Rightarrow> world" where
  "calm_world lines listing yaml =
     \<lparr>unicode_lower = (\<lambda>s. s),
      unicode_decimal = (\<lambda>c. if 0x660 \<le> c \<and> c \<le> 0x669 then Some (c - 0x660) else None),
      yaml_load = (\<lambda>p. if p = py ''run.yaml'' then Inr yaml else Inl (OSError ''No such file'')),
      float_conv = (\<lambda>v. case v of PInt n \<Rightarrow> Inr (Finite (of_int n)) | _ \<Rightarrow> Inl TypeError),
      os_path_exists = (\<lambda>p. Inr (p = PStr (py ''data.jsonl''))),
      os_makedirs = (\<lambda>d. None),
      import_libraries = None,
      cuda_is_available = False,
      tokenizer_from_pretrained = (\<lambda>m. Inr char_tokenizer),
      import_datasets = None,
      read_lines = (\<lambda>p. if p = PStr (py ''data.jsonl'') then Inr lines
                         else Inl (OSError ''No such file'')),
      json_loads = (\<lambda>l. if l = sample_line then Inr sample_row
                         else Inl (LibraryError ''JSONDecodeError'')),
      model_from_pretrained = (\<lambda>m. None),
      get_peft_model = None,
      make_trainer = (\<lambda>ta ds. None),
      os_path_isdir = (\<lambda>d. True),
      os_listdir = (\<lambda>d. Inr listing),
      trainer_train = (\<lambda>c. None),
      save_pretrained = (\<lambda>d. None),
      exists_after_save = (\<lambda>p. True),
      write_file = (\<lambda>p. None),
      append_file = (\<lambda>p. None)\<rparr>"

text \<open>The command line \<open>train.py --data data.jsonl --max_length 8\<close>, every other
  argument at its default.\<close>

definition plain_args :: args where
  "plain_args =
     \<lparr>arg_config = None, arg_data = Some (py ''data.jsonl''),
      arg_base = py ''meta-llama/Llama-3.2-1B-Instruct'', arg_outdir = py ''artifacts'',
      arg_epochs = 3, arg_lr = Finite (4 / 10000), arg_bsz = 1, arg_max_length = 8,
      arg_resume = Auto\<rparr>"

definition plain_argv :: "pystr list" where
  "plain_argv = [py ''train.py'', py ''--data'', py ''data.jsonl'', py ''--max_length'', py ''8'']"

text \<open>The spelling of the resume mode on the command line.\<close>

definition resume_text :: "resume_mode \<Rightarrow> pystr" where
  "resume_text m = (case m of Auto \<Rightarrow> py ''auto'' | Never \<Rightarrow> py ''never'' | Force \<Rightarrow> py ''force'')"

text \<open>A configuration file that sets both batch-size keys, and the command line
  \<open>train.py --config run.yaml --data data.jsonl --max_length 8 --bsz 7\<close>.\<close>

definition both_keys :: "(pyval \<times> pyval) list" where
  "both_keys = [(PStr (py ''bsz''), PInt 2), (PStr (py ''batch_size''), PInt 4)]"

definition config_args :: args where
  "config_args = plain_args\<lparr>arg_config := Some (py ''run.yaml''), arg_bsz := 7\<rparr>"

text \<open>The loop of the handler, said by positions: \<open>i\<close> is the first position of
  \<open>sys.argv\<close> that holds \<open>--outdir\<close>, and it is not the last position.\<close>

definition first_outdir :: "pystr list \<Rightarrow> nat \<Rightarrow> bool" where
  "first_outdir argv i =
     (i + 1 < length argv \<and> argv ! i = py ''--outdir'' \<and> (\<forall>j<i. argv ! j \<noteq> py ''--outdir''))"

text \<open>A world as \<open>calm_world\<close> where saving leaves only the adapter's weights
  behind.\<close>

definition weights_only_world :: "pystr list \<Rightarrow> pystr list \<Rightarrow> pyval \<Rightarrow> world" where
  "weights_only_world lines listing yaml =
     (calm_world lines listing yaml)
       \<lparr>exists_after_save := (\<lambda>p. p = py ''artifacts/adapter_model.safetensors'')\<rparr>"


text \<open>The example both non-blank lines of the sample dataset give with
  \<open>char_tokenizer\<close> and \<open>max_length = 8\<close>: the codes of \<open>User: Ho\<close>.\<close>

definition sample_example :: tokenized_example where
  "sample_example =
     \<lparr>ex_input_ids = [85, 115, 101, 114, 58, 32, 72, 111],
      ex_attention_mask = [1, 1, 1, 1, 1, 1, 1, 1],
      ex_labels = [85, 115, 101, 114, 58, 32, 72, 111]\<rparr>"

text \<open>A run whose configuration file gives a number as \<open>output_dir\<close>, started as
  \<open>train.py --config run.yaml --data data.jsonl --max_length 8 --outdir o\<close>.\<close>

definition marker_args :: args where
  "marker_args = plain_args\<lparr>arg_config := Some (py ''run.yaml''), arg_outdir := py ''o''\<rparr>"

definition marker_argv :: "pystr list" where
  "marker_argv = [py ''train.py'', py ''--config'', py ''run.yaml'', py ''--data'', py ''data.jsonl'',
                  py ''--max_length'', py ''8'', py ''--outdir'', py ''o'']"

definition marker_world :: world where
  "marker_world = calm_world [sample_line] [] (PDict [(PStr (py ''output_dir''), PInt 2)])"


section \<open>Literals\<close>

lemma py_eq_iff [simp]: "py a = py b \<longleftrightarrow> a = b"
  by (simp add: py_def inj_map_eq_map inj_on_def)

section \<open>The model identifier resolver\<close>

lemma lower_ascii_space: "lower_ascii c = 0x20 \<longleftrightarrow> c = 0x20"
  by (auto simp add: lower_ascii_def)

lemma remove_spaces_ascii: "list_all is_ascii s \<Longrightarrow> list_all is_ascii (remove_spaces s)"
  by (simp add: remove_spaces_def list_all_iff)

lemma strip_ascii: "list_all is_ascii s \<Longrightarrow> list_all is_ascii (strip s)"
  by (auto simp add: strip_def strip_with_def list_all_iff dest!: set_dropWhileD)

lemma remove_spaces_lower:
  assumes "list_all is_ascii s"
  shows "remove_spaces (lower ul s) = lower ul (remove_spaces s)"
proof -
  have "remove_spaces (map lower_ascii s) = map lower_ascii (remove_spaces s)"
    by (induction s) (simp_all add: remove_spaces_def lower_ascii_space)
  with assms remove_spaces_ascii [OF assms] show ?thesis
    by (simp add: lower_def)
qed

lemma strip_Nil: "strip [] = []"
  by (simp add: strip_def strip_with_def)

lemma normalize_unfolded:
  "normalize_base_model_id ul s =
     (case map_of aliases (remove_spaces (lower ul (strip s))) of
        Some v \<Rightarrow> v
      | None \<Rightarrow> strip s)"
proof (cases "s = []")
  case True
  have "map_of aliases (remove_spaces (lower ul [])) = None"
    by code_simp
  with True show ?thesis
    by (simp add: normalize_base_model_id_def strip_Nil)
next
  case False
  then show ?thesis
    by (simp add: normalize_base_model_id_def alias_get_def Let_def)
qed

text \<open>
  C9. \<open>normalize_base_model_id\<close> is a total function of its argument (and of the
  interpreter's Unicode database) alone. On every string, empty or not, ASCII or not, the
  result is found by trimming the whitespace, lower-casing, removing the spaces and
  looking the key up in the alias table, and it is the trimmed input when the table has
  no such key. On ASCII strings removing the spaces before lower-casing, as the
  specification words it, gives the same. \<open>Llama3:8B\<close> resolves to
  \<open>meta-llama/Meta-Llama-3-8B-Instruct\<close> and \<open>custom/model-id\<close> to itself.
\<close>

theorem normalize_base_model_id_total:
  "normalize_base_model_id ul s =
     (case map_of aliases (remove_spaces (lower ul (strip s))) of
        Some v \<Rightarrow> v
      | None \<Rightarrow> strip s)
   \<and> (list_all is_ascii s \<longrightarrow> normalize_base_model_id ul s = resolver_spec ul s)
   \<and> normalize_base_model_id ul (py ''Llama3:8B'') = py ''meta-llama/Meta-Llama-3-8B-Instruct''
   \<and> normalize_base_model_id ul (py ''custom/model-id'') = py ''custom/model-id''"
proof -
  have "normalize_base_model_id ul (py ''Llama3:8B'') = py ''meta-llama/Meta-Llama-3-8B-Instruct''"
    by code_simp
  moreover have "normalize_base_model_id ul (py ''custom/model-id'') = py ''custom/model-id''"
    by code_simp
  moreover have "normalize_base_model_id ul s = resolver_spec ul s" if "list_all is_ascii s"
    using remove_spaces_lower [OF strip_ascii [OF that]]
    by (simp add: normalize_unfolded resolver_spec_def Let_def)
  ultimately show ?thesis
    using normalize_unfolded by blast
qed

theorem normalize_base_model_id_total_witness:
  "list_all is_ascii (py '' Qwen 2.5 : 0.5B '')
   \<and> normalize_base_model_id (\<lambda>s. s) (py '' Qwen 2.5 : 0.5B '') = py ''Qwen/Qwen2.5-0.5B-Instruct''
   \<and> resolver_spec (\<lambda>s. s) (py '' Qwen 2.5 : 0.5B '') = py ''Qwen/Qwen2.5-0.5B-Instruct''
   \<and> strip ([0xA0] @ py ''Llama3:8B'' @ [0x85]) = py ''Llama3:8B''
   \<and> normalize_base_model_id (\<lambda>s. s) ([0xA0] @ py ''Llama3:8B'' @ [0x85])
        = py ''meta-llama/Meta-Llama-3-8B-Instruct''
   \<and> normalize_base_model_id (\<lambda>s. s) ([0x3000] @ py ''My Org/My Model'' @ [0x0A])
        = py ''My Org/My Model''"
proof -
  have a: "list_all is_ascii (py '' Qwen 2.5 : 0.5B '')"
    by code_simp
  have k: "resolver_spec (\<lambda>s. s) (py '' Qwen 2.5 : 0.5B '') = py ''Qwen/Qwen2.5-0.5B-Instruct''"
    by code_simp
  from normalize_base_model_id_total [of "\<lambda>s. s" "py '' Qwen 2.5 : 0.5B ''"] a
  have "normalize_base_model_id (\<lambda>s. s) (py '' Qwen 2.5 : 0.5B '')
          = resolver_spec (\<lambda>s. s) (py '' Qwen 2.5 : 0.5B '')"
    by blast
  with k have q: "normalize_base_model_id (\<lambda>s. s) (py '' Qwen 2.5 : 0.5B '')
             = py ''Qwen/Qwen2.5-0.5B-Instruct''"
    by simp
  have t: "strip ([0xA0] @ py ''Llama3:8B'' @ [0x85]) = py ''Llama3:8B''"
    by code_simp
  have "map_of aliases (remove_spaces (lower (\<lambda>s. s) (py ''Llama3:8B'')))
          = Some (py ''meta-llama/Meta-Llama-3-8B-Instruct'')"
    by code_simp
  with normalize_base_model_id_total [of "\<lambda>s. s" "[0xA0] @ py ''Llama3:8B'' @ [0x85]"] t
  have l: "normalize_base_model_id (\<lambda>s. s) ([0xA0] @ py ''Llama3:8B'' @ [0x85])
             = py ''meta-llama/Meta-Llama-3-8B-Instruct''"
    by simp
  have t': "strip ([0x3000] @ py ''My Org/My Model'' @ [0x0A]) = py ''My Org/My Model''"
    by code_simp
  have "map_of aliases (remove_spaces (lower (\<lambda>s. s) (py ''My Org/My Model''))) = None"
    by code_simp
  with normalize_base_model_id_total [of "\<lambda>s. s" "[0x3000] @ py ''My Org/My Model'' @ [0x0A]"] t'
  have m: "normalize_base_model_id (\<lambda>s. s) ([0x3000] @ py ''My Org/My Model'' @ [0x0A])
             = py ''My Org/My Model''"
    by simp
  from a q k t l m show ?thesis by blast
qed

section \<open>The checkpoint locator\<close>

text \<open>
  C2. With the entries \<open>checkpoint-5\<close>, \<open>checkpoint-20\<close> and \<open>checkpoint-abc\<close> in the
  training output directory the locator does not return \<open>checkpoint-20\<close>: every name
  that passed the prefix filter contains the separator, so the fallback key \<open>-1\<close> is
  never used, \<open>int\<close> is applied to \<open>abc\<close>, and the sort raises \<open>ValueError\<close>.
\<close>

theorem latest_checkpoint_unparsable_suffix:
  "latest_checkpoint dec (py ''artifacts/hf_out'') [py ''checkpoint-5'', py ''checkpoint-20'', py ''checkpoint-abc'']
     = Inl ValueError
   \<and> ckpt_sort_key dec (py ''checkpoint-abc'') = Inl ValueError
   \<and> latest_checkpoint dec (py ''artifacts/hf_out'') [py ''checkpoint-5'', py ''checkpoint-20'']
     = Inr (Some (py ''artifacts/hf_out/checkpoint-20''))"
  by code_simp

section \<open>The configuration merge\<close>

lemma merge_cfg_bsz:
  "merge_cfg a w cfg = Inr s \<Longrightarrow>
     py_int (unicode_decimal w) (dict_get cfg (py ''batch_size'') (dict_get cfg (py ''bsz'') (PInt (arg_bsz a)))) = Inr (bsz s)"
  unfolding merge_cfg_def Let_def
  by (auto split: pyval.splits sum.splits)

lemma py_or_dict: "py_or (PDict cfg) (PDict []) = PDict cfg"
  by (cases cfg) (simp_all add: py_or_def)

lemma resolve_with_config:
  assumes "arg_config a = Some path" and "path \<noteq> []"
    and "yaml_load w path = Inr (PDict cfg)"
  shows "resolve a w = merge_cfg a w cfg"
  using assms by (simp add: resolve_def opt_str_def load_yaml_cfg_def py_or_dict)

text \<open>
  C10. When the run has a configuration file and the merge succeeds, the batch size is
  \<open>int\<close> of the file's \<open>batch_size\<close> value whenever that key is present, whatever
  \<open>bsz\<close> and the command line say; of the file's \<open>bsz\<close> value when only that key is
  present; and the command line's value when the file has neither.
\<close>

theorem batch_size_precedence:
  assumes "arg_config a = Some path" and "path \<noteq> []"
    and "yaml_load w path = Inr (PDict cfg)"
    and "resolve a w = Inr s"
  shows "(case map_of cfg (PStr (py ''batch_size'')) of
            Some v \<Rightarrow> py_int (unicode_decimal w) v = Inr (bsz s)
          | None \<Rightarrow> (case map_of cfg (PStr (py ''bsz'')) of
                       Some v \<Rightarrow> py_int (unicode_decimal w) v = Inr (bsz s)
                     | None \<Rightarrow> bsz s = arg_bsz a))"
proof -
  have "merge_cfg a w cfg = Inr s"
    using assms resolve_with_config by simp
  from merge_cfg_bsz [OF this] show ?thesis
    by (simp add: dict_get_def split: option.splits)
qed

theorem batch_size_precedence_witness:
  "arg_config config_args = Some (py ''run.yaml'')
   \<and> yaml_load (calm_world [] [] (PDict both_keys)) (py ''run.yaml'') = Inr (PDict both_keys)
   \<and> resolve config_args (calm_world [] [] (PDict both_keys))
       = Inr ((cli_settings config_args)\<lparr>bsz := 4\<rparr>)
   \<and> map_of both_keys (PStr (py ''batch_size'')) = Some (PInt 4)
   \<and> map_of both_keys (PStr (py ''bsz'')) = Some (PInt 2)
   \<and> arg_bsz config_args = 7
   \<and> py_int (unicode_decimal (calm_world [] [] (PDict both_keys))) (PInt 4)
       = Inr (bsz ((cli_settings config_args)\<lparr>bsz := 4\<rparr>))"
proof -
  have c: "arg_config config_args = Some (py ''run.yaml'')"
    by (simp add: config_args_def)
  have y: "yaml_load (calm_world [] [] (PDict both_keys)) (py ''run.yaml'') = Inr (PDict both_keys)"
    by (simp add: calm_world_def)
  have r: "resolve config_args (calm_world [] [] (PDict both_keys))
             = Inr ((cli_settings config_args)\<lparr>bsz := 4\<rparr>)"
    by code_simp
  have k: "map_of both_keys (PStr (py ''batch_size'')) = Some (PInt 4)"
    by (simp add: both_keys_def)
  have k': "map_of both_keys (PStr (py ''bsz'')) = Some (PInt 2)"
    by (simp add: both_keys_def)
  have n: "arg_bsz config_args = 7"
    by (simp add: config_args_def)
  from batch_size_precedence [OF c _ y r] k
  have "py_int (unicode_decimal (calm_world [] [] (PDict both_keys))) (PInt 4)
       = Inr (bsz ((cli_settings config_args)\<lparr>bsz := 4\<rparr>))"
    by simp
  with c y r k k' n show ?thesis by simp
qed


section \<open>The dataset builder\<close>

lemma tok_labels:
  assumes "tok tk m texts = Inr out"
  shows "labels out = input_ids out
       \<and> (\<exists>enc. tk texts \<lparr>truncation = True, padding = py ''max_length'', opt_max_length = m\<rparr> = Inr enc
               \<and> input_ids out = input_ids enc \<and> attention_mask out = attention_mask enc)"
  using assms by (auto simp add: tok_def split: sum.splits)

lemma examples_of_members:
  assumes "examples_of out = Inr exs" and "ex \<in> set exs" and "labels out = input_ids out"
  shows "ex_input_ids ex \<in> set (input_ids out) \<and> ex_attention_mask ex \<in> set (attention_mask out)
       \<and> ex_labels ex = ex_input_ids ex"
proof -
  from assms(1) have exs: "exs = map (\<lambda>(i, m, l). \<lparr>ex_input_ids = i, ex_attention_mask = m, ex_labels = l\<rparr>)
                    (zip (input_ids out) (zip (attention_mask out) (labels out)))"
    by (simp add: examples_of_def split: if_splits)
  with assms(2) obtain i m l where
    z: "(i, m, l) \<in> set (zip (input_ids out) (zip (attention_mask out) (labels out)))"
    and ex: "ex = \<lparr>ex_input_ids = i, ex_attention_mask = m, ex_labels = l\<rparr>"
    by auto
  from z obtain n where n: "i = input_ids out ! n" "n < length (input_ids out)"
    "(m, l) = zip (attention_mask out) (labels out) ! n" "n < length (zip (attention_mask out) (labels out))"
    by (auto simp add: set_zip)
  then have "m = attention_mask out ! n" "l = labels out ! n" "n < length (attention_mask out)"
    by auto
  with n assms(3) ex show ?thesis by auto
qed

lemma map_batches_shape:
  assumes contract: "\<forall>texts enc. tk texts \<lparr>truncation = True, padding = py ''max_length'', opt_max_length = m\<rparr> = Inr enc
            \<longrightarrow> (\<forall>ids\<in>set (input_ids enc). int (length ids) = m)
                \<and> (\<forall>mask\<in>set (attention_mask enc). int (length mask) = m)"
    and "map_batches tk m bs = Inr ds" and "ex \<in> set ds"
  shows "int (length (ex_input_ids ex)) = m \<and> int (length (ex_attention_mask ex)) = m
         \<and> int (length (ex_labels ex)) = m \<and> ex_labels ex = ex_input_ids ex"
  using assms(2,3)
proof (induction bs arbitrary: ds)
  case Nil
  then show ?case by simp
next
  case (Cons b bs)
  from Cons.prems(1) obtain out exs rest where
    t: "tok tk m b = Inr out" and e: "examples_of out = Inr exs"
    and r: "map_batches tk m bs = Inr rest" and ds: "ds = exs @ rest"
    by (auto split: sum.splits)
  show ?case
  proof (cases "ex \<in> set exs")
    case True
    from tok_labels [OF t] obtain enc where
      l: "labels out = input_ids out"
      and enc: "tk b \<lparr>truncation = True, padding = py ''max_length'', opt_max_length = m\<rparr> = Inr enc"
      and cols: "input_ids out = input_ids enc" "attention_mask out = attention_mask enc"
      by blast
    from examples_of_members [OF e True l] cols
    have mem: "ex_input_ids ex \<in> set (input_ids enc)" "ex_attention_mask ex \<in> set (attention_mask enc)"
      and same: "ex_labels ex = ex_input_ids ex"
      by simp_all
    from contract enc have "\<forall>ids\<in>set (input_ids enc). int (length ids) = m"
      and "\<forall>mask\<in>set (attention_mask enc). int (length mask) = m"
      by blast+
    with mem same show ?thesis by simp
  next
    case False
    with Cons.prems(2) ds have "ex \<in> set rest" by simp
    with Cons.IH [OF r] show ?thesis by simp
  qed
qed

text \<open>
  C4. The tokenizer is a library's: take any tokenizer that, asked with
  \<open>truncation=True, padding="max_length", max_length=m\<close>, returns input-id and
  attention-mask sequences of length \<open>m\<close>. Then for every dataset file that
  \<open>build_dataset\<close> accepts, every example it produces has input ids, attention mask
  and labels of length exactly \<open>m\<close>, and its labels are its input ids.
\<close>

theorem tokenized_examples_shape:
  assumes "\<forall>texts enc. tk texts \<lparr>truncation = True, padding = py ''max_length'', opt_max_length = m\<rparr> = Inr enc
            \<longrightarrow> (\<forall>ids\<in>set (input_ids enc). int (length ids) = m)
                \<and> (\<forall>mask\<in>set (attention_mask enc). int (length mask) = m)"
    and "build_dataset w path tk m = Inr ds"
  shows "\<forall>ex\<in>set ds.
           int (length (ex_input_ids ex)) = m \<and> int (length (ex_attention_mask ex)) = m
           \<and> int (length (ex_labels ex)) = m \<and> ex_labels ex = ex_input_ids ex"
proof
  fix ex assume ex: "ex \<in> set ds"
  from assms(2) obtain texts where "map_batches tk m (batches 1000 texts) = Inr ds"
    by (auto simp add: build_dataset_def split: option.splits sum.splits if_splits)
  from map_batches_shape [OF assms(1) this ex]
  show "int (length (ex_input_ids ex)) = m \<and> int (length (ex_attention_mask ex)) = m
           \<and> int (length (ex_labels ex)) = m \<and> ex_labels ex = ex_input_ids ex" .
qed

lemma char_tokenizer_contract:
  assumes "0 \<le> m"
  shows "\<forall>texts enc.
           char_tokenizer texts \<lparr>truncation = True, padding = py ''max_length'', opt_max_length = m\<rparr> = Inr enc
           \<longrightarrow> (\<forall>ids\<in>set (input_ids enc). int (length ids) = m)
               \<and> (\<forall>mask\<in>set (attention_mask enc). int (length mask) = m)"
  using assms by (auto simp add: char_tokenizer_def Let_def)

theorem tokenized_examples_shape_witness:
  "build_dataset (calm_world [sample_line, [], sample_line] [] PNone) (PStr (py ''data.jsonl''))
       char_tokenizer 8 = Inr [sample_example, sample_example]
   \<and> int (length (ex_input_ids sample_example)) = 8
   \<and> int (length (ex_attention_mask sample_example)) = 8
   \<and> int (length (ex_labels sample_example)) = 8
   \<and> ex_labels sample_example = ex_input_ids sample_example"
proof -
  have built: "build_dataset (calm_world [sample_line, [], sample_line] [] PNone)
       (PStr (py ''data.jsonl'')) char_tokenizer 8 = Inr [sample_example, sample_example]"
    by code_simp
  have "(0::int) \<le> 8" by simp
  from tokenized_examples_shape [OF char_tokenizer_contract [OF this] built]
  have "int (length (ex_input_ids sample_example)) = 8
      \<and> int (length (ex_attention_mask sample_example)) = 8
      \<and> int (length (ex_labels sample_example)) = 8
      \<and> ex_labels sample_example = ex_input_ids sample_example"
    by simp
  with built show ?thesis by simp
qed


section \<open>Runs of main and of the script\<close>

lemmas run_defs = main_def bind_def andthen_def emit_def attempt_def lift_def ret_def
  raise_def not_found_def makedirs_def start_training_def Let_def

lemmas run_splits = sum.splits option.splits if_splits prod.splits pyval.splits

lemma main_train_path:
  "main a w [] = (res, t) \<Longrightarrow> Train c \<in> set t \<Longrightarrow>
     \<exists>s. resolve a w = Inr s \<and> truthy (data_path s) \<and> os_path_exists w (data_path s) = Inr True"
  by (auto simp add: run_defs split: run_splits)

lemma main_missing:
  "resolve a w = Inr s \<Longrightarrow>
   \<not> truthy (data_path s) \<or> os_path_exists w (data_path s) = Inr False \<Longrightarrow>
   main a w [] = (Inr 1, [LogBaseModel (base_model_raw s) (normalize_base_model_id (unicode_lower w) (base_model_raw s)),
                           LogDatasetNotFound (data_path s)])"
  by (auto simp add: run_defs split: run_splits)






lemma main_train_ckpt:
  "main a w [] = (res, t) \<Longrightarrow> Train c \<in> set t \<Longrightarrow> resolve a w = Inr s \<Longrightarrow> outdir s = PStr out \<Longrightarrow>
    (case find_ckpt w (path_join out (py ''hf_out'')) of
       Inl e \<Rightarrow> False
     | Inr ck \<Rightarrow> c = (if ck \<noteq> None \<and> ck \<noteq> Some [] then ck else None))"
  by (auto simp add: run_defs split: run_splits)

lemma main_train_built:
  "main a w [] = (res, t) \<Longrightarrow> Train c \<in> set t \<Longrightarrow> resolve a w = Inr s \<Longrightarrow>
    (case tokenizer_from_pretrained w
            (normalize_base_model_id (unicode_lower w) (base_model_raw s)) of
       Inl e \<Rightarrow> False
     | Inr tk \<Rightarrow> (case build_dataset w (data_path s) tk (max_length s) of
                    Inl e \<Rightarrow> False
                  | Inr ds \<Rightarrow> True))"
  by (auto simp add: run_defs split: run_splits)

lemma build_dataset_rows:
  assumes "build_dataset w p tk m = Inr ds"
  shows "\<exists>rows. load_jsonl_rows w p = Inr rows \<and> rows \<noteq> []"
proof -
  from assms obtain rows texts where r: "load_jsonl_rows w p = Inr rows"
    and t: "map_to_text rows = Inr texts" and n: "texts \<noteq> []"
    by (auto simp add: build_dataset_def split: option.splits sum.splits if_splits)
  from t n have "rows \<noteq> []" by auto
  with r show ?thesis by blast
qed

lemma write_marker_trace:
  "\<exists>evs. snd (write_marker w argv e t) = t @ evs
         \<and> (\<forall>x\<in>set evs. (\<exists>d. x = MakeDirs d) \<or> (\<exists>p. x = AppendErrorText p e))"
  by (auto simp add: write_marker_def andthen_def bind_def attempt_def ret_def Let_def
      split: option.splits)

lemma script_cases:
  assumes run: "script a argv w = (oc, t)"
  obtains (exit) n where "main a w [] = (Inr n, t)" and "oc = Exit n"
  | (uncaught) e t0 evs where "main a w [] = (Inl e, t0)" and "oc = Uncaught e"
      and "t = t0 @ evs"
      and "\<forall>x\<in>set evs. (\<exists>d. x = MakeDirs d) \<or> (\<exists>p. x = AppendErrorText p e)"
proof (cases "main a w []")
  case (Pair res t0)
  show ?thesis
  proof (cases res)
    case (Inr n)
    with Pair run have "main a w [] = (Inr n, t)" "oc = Exit n"
      by (simp_all add: script_def)
    then show ?thesis by (rule exit)
  next
    case (Inl e)
    with Pair run have oc: "oc = Uncaught e" and t: "t = snd (write_marker w argv e t0)"
      by (simp_all add: script_def)
    from write_marker_trace [of w argv e t0] t obtain evs where
      "t = t0 @ evs" "\<forall>x\<in>set evs. (\<exists>d. x = MakeDirs d) \<or> (\<exists>p. x = AppendErrorText p e)"
      by auto
    with Pair Inl oc show ?thesis by (auto intro: uncaught)
  qed
qed

section \<open>The dataset check\<close>

text \<open>
  C6. A run that starts training has a dataset path that is true (not \<open>None\<close>, not
  empty) and exists, and its dataset file gave at least one row. When the path is missing
  the script logs the error and exits with status 1 before any directory is made; when
  the file has no row, building the dataset raises. Neither run trains.
\<close>

theorem training_needs_dataset:
  "(Train c \<in> set (snd (script a argv w)) \<longrightarrow>
      (\<exists>s rows. resolve a w = Inr s \<and> truthy (data_path s)
           \<and> os_path_exists w (data_path s) = Inr True
           \<and> load_jsonl_rows w (data_path s) = Inr rows \<and> rows \<noteq> []))
   \<and> (resolve a w = Inr s
        \<and> (\<not> truthy (data_path s) \<or> os_path_exists w (data_path s) = Inr False) \<longrightarrow>
      script a argv w =
        (Exit 1, [LogBaseModel (base_model_raw s)
                    (normalize_base_model_id (unicode_lower w) (base_model_raw s)),
                  LogDatasetNotFound (data_path s)]))
   \<and> (resolve a w = Inr s \<and> load_jsonl_rows w (data_path s) = Inr [] \<longrightarrow>
        (\<forall>k. Train k \<notin> set (snd (script a argv w))))"
proof -
  have reach: "\<exists>s rows. resolve a w = Inr s \<and> truthy (data_path s)
           \<and> os_path_exists w (data_path s) = Inr True
           \<and> load_jsonl_rows w (data_path s) = Inr rows \<and> rows \<noteq> []"
    if tr: "Train k \<in> set (snd (script a argv w))" for k
  proof -
    obtain oc t where run: "script a argv w = (oc, t)" by (cases "script a argv w")
    with tr have k: "Train k \<in> set t" by simp
    from run obtain res t0 where m: "main a w [] = (res, t0)" and k0: "Train k \<in> set t0"
    proof (cases rule: script_cases)
      case (exit n)
      with k that show ?thesis by blast
    next
      case (uncaught e t0 evs)
      with k have "Train k \<in> set t0" by auto
      with uncaught(1) that show ?thesis by blast
    qed
    from main_train_path [OF m k0] obtain s' where s': "resolve a w = Inr s'"
      "truthy (data_path s')" "os_path_exists w (data_path s') = Inr True" by blast
    from main_train_built [OF m k0 s'(1)] obtain tk ds where
      "build_dataset w (data_path s') tk (max_length s') = Inr ds"
      by (auto split: sum.splits)
    from build_dataset_rows [OF this] s' show ?thesis by blast
  qed
  have missing: "script a argv w =
        (Exit 1, [LogBaseModel (base_model_raw s)
                    (normalize_base_model_id (unicode_lower w) (base_model_raw s)),
                  LogDatasetNotFound (data_path s)])"
    if "resolve a w = Inr s"
      "\<not> truthy (data_path s) \<or> os_path_exists w (data_path s) = Inr False"
    using main_missing [OF that] by (simp add: script_def)
  have empty: "Train k \<notin> set (snd (script a argv w))"
    if "resolve a w = Inr s" "load_jsonl_rows w (data_path s) = Inr []" for k
  proof
    assume "Train k \<in> set (snd (script a argv w))"
    from reach [OF this] that show False by auto
  qed
  from reach missing empty show ?thesis by blast
qed

theorem training_needs_dataset_witness:
  "Train None \<in> set (snd (script plain_args plain_argv (calm_world [sample_line] [] PNone)))
   \<and> resolve plain_args (calm_world [sample_line] [] PNone) = Inr (cli_settings plain_args)
   \<and> data_path (cli_settings plain_args) = PStr (py ''data.jsonl'')
   \<and> truthy (data_path (cli_settings plain_args))
   \<and> os_path_exists (calm_world [sample_line] [] PNone) (data_path (cli_settings plain_args))
        = Inr True
   \<and> load_jsonl_rows (calm_world [sample_line] [] PNone) (data_path (cli_settings plain_args))
        = Inr [sample_row]
   \<and> load_jsonl_rows (calm_world [] [] PNone) (data_path (cli_settings plain_args)) = Inr []
   \<and> fst (script plain_args plain_argv (calm_world [] [] PNone)) = Uncaught ValueError
   \<and> Train None \<notin> set (snd (script plain_args plain_argv (calm_world [] [] PNone)))"
proof -
  let ?w = "calm_world [sample_line] [] PNone"
  let ?e = "calm_world [] [] PNone"
  have tr: "Train None \<in> set (snd (script plain_args plain_argv ?w))"
    by code_simp
  have r: "resolve plain_args ?w = Inr (cli_settings plain_args)"
    by (simp add: resolve_def plain_args_def opt_str_def)
  have r': "resolve plain_args ?e = Inr (cli_settings plain_args)"
    by (simp add: resolve_def plain_args_def opt_str_def)
  have d: "data_path (cli_settings plain_args) = PStr (py ''data.jsonl'')"
    by (simp add: cli_settings_def plain_args_def opt_str_def)
  have l: "load_jsonl_rows ?w (data_path (cli_settings plain_args)) = Inr [sample_row]"
    by code_simp
  have l': "load_jsonl_rows ?e (data_path (cli_settings plain_args)) = Inr []"
    by code_simp
  have u: "fst (script plain_args plain_argv ?e) = Uncaught ValueError"
    by code_simp
  from training_needs_dataset
         [where c = None and a = plain_args and argv = plain_argv and w = ?w] tr r
  have "truthy (data_path (cli_settings plain_args))
      \<and> os_path_exists ?w (data_path (cli_settings plain_args)) = Inr True"
    by auto
  moreover from training_needs_dataset
         [where a = plain_args and argv = plain_argv and w = ?e
            and s = "cli_settings plain_args"] r' l'
  have "Train None \<notin> set (snd (script plain_args plain_argv ?e))"
    by blast
  ultimately show ?thesis using tr r d l l' u by simp
qed

section \<open>The exit status\<close>









section \<open>Resuming\<close>

lemma sort_keys_map: "sort_keys dec ns = Inr ks \<Longrightarrow> map (ckpt_sort_key dec) ns = map Inr ks"
  by (induction ns arbitrary: ks) (auto split: sum.splits)

lemma sorted_last_max: "sorted xs \<Longrightarrow> x \<in> set xs \<Longrightarrow> x \<le> last xs"
  by (induction xs) auto

lemma zip_keys:
  assumes "map (ckpt_sort_key dec) ns = map Inr ks" and "(k, n) \<in> set (zip ks ns)"
  shows "ckpt_sort_key dec n = Inr k"
proof -
  from assms(2) obtain i where i: "i < length ks" "i < length ns" "ks ! i = k" "ns ! i = n"
    by (auto simp add: set_zip)
  from assms(1) have "map (ckpt_sort_key dec) ns ! i = map Inr ks ! i" by simp
  with i show ?thesis by simp
qed

lemma sort_ckpts_last:
  assumes "sort_ckpts dec ns = Inr ordered" and "ns \<noteq> []"
  shows "last ordered \<in> set ns \<and>
         (\<exists>k. ckpt_sort_key dec (last ordered) = Inr k \<and>
              (\<forall>m\<in>set ns. \<exists>j. ckpt_sort_key dec m = Inr j \<and> j \<le> k))"
proof -
  from assms(1) obtain ks where ks: "sort_keys dec ns = Inr ks"
    and ord: "ordered = map snd (sort_key fst (zip ks ns))"
    by (auto simp add: sort_ckpts_def split: sum.splits)
  let ?ps = "sort_key fst (zip ks ns)"
  have keys: "map (ckpt_sort_key dec) ns = map Inr ks" using ks by (rule sort_keys_map)
  then have len: "length ks = length ns" by (metis length_map)
  have set_ps: "set ?ps = set (zip ks ns)" by simp
  have ne: "?ps \<noteq> []"
    using len assms(2) by (metis length_sort length_zip list.size(3) min.idem length_0_conv)
  have srt: "sorted (map fst ?ps)" by (rule sorted_sort_key)
  obtain k n where kn: "last ?ps = (k, n)" by (cases "last ?ps")
  have mem: "(k, n) \<in> set (zip ks ns)" using ne kn set_ps last_in_set by metis
  have key_n: "ckpt_sort_key dec n = Inr k" using keys mem by (rule zip_keys)
  have last_n: "last ordered = n" using ne kn by (simp add: ord last_map)
  have n_in: "n \<in> set ns" using mem by (rule set_zip_rightD)
  have max: "\<exists>j. ckpt_sort_key dec m = Inr j \<and> j \<le> k" if m: "m \<in> set ns" for m
  proof -
    from m obtain i where i: "i < length ns" "ns ! i = m" by (auto simp add: in_set_conv_nth)
    let ?j = "ks ! i"
    have jm: "(?j, m) \<in> set (zip ks ns)" using i len by (auto simp add: set_zip)
    have "ckpt_sort_key dec m = Inr ?j" using keys jm by (rule zip_keys)
    moreover have "?j \<in> set (map fst ?ps)" using jm set_ps by force
    then have "?j \<le> last (map fst ?ps)" using srt sorted_last_max by blast
    then have "?j \<le> k" using ne kn by (simp add: last_map)
    ultimately show ?thesis by blast
  qed
  show ?thesis using last_n n_in key_n max by blast
qed

lemma path_join_nonempty: "b \<noteq> [] \<Longrightarrow> path_join a b \<noteq> []"
  by (cases b) (simp_all add: path_join_def)

lemma startswith_nonempty: "startswith n (py ''checkpoint-'') \<Longrightarrow> n \<noteq> []"
  by (auto simp add: startswith_def py_def)

lemma latest_checkpoint_max:
  assumes "latest_checkpoint dec hf listing = Inr ck"
  shows "(filter (\<lambda>d. startswith d (py ''checkpoint-'')) listing = [] \<longrightarrow> ck = None)
       \<and> (filter (\<lambda>d. startswith d (py ''checkpoint-'')) listing \<noteq> [] \<longrightarrow>
            (\<exists>n k. n \<in> set listing \<and> startswith n (py ''checkpoint-'') \<and> ck = Some (path_join hf n)
                 \<and> path_join hf n \<noteq> [] \<and> ckpt_sort_key dec n = Inr k
                 \<and> (\<forall>m\<in>set listing. startswith m (py ''checkpoint-'') \<longrightarrow>
                        (\<exists>j. ckpt_sort_key dec m = Inr j \<and> j \<le> k))))"
proof (cases "filter (\<lambda>d. startswith d (py ''checkpoint-'')) listing = []")
  case True
  with assms show ?thesis by (simp add: latest_checkpoint_def)
next
  case False
  let ?ns = "filter (\<lambda>d. startswith d (py ''checkpoint-'')) listing"
  from assms False obtain ordered where o: "sort_ckpts dec ?ns = Inr ordered"
    and ck: "ck = Some (path_join hf (last ordered))"
    by (auto simp add: latest_checkpoint_def Let_def split: sum.splits)
  from sort_ckpts_last [OF o False] obtain k where
    l: "last ordered \<in> set ?ns" and k: "ckpt_sort_key dec (last ordered) = Inr k"
    and m: "\<forall>m\<in>set ?ns. \<exists>j. ckpt_sort_key dec m = Inr j \<and> j \<le> k" by blast
  from l have "startswith (last ordered) (py ''checkpoint-'')" "last ordered \<in> set listing" by auto
  moreover then have "path_join hf (last ordered) \<noteq> []"
    using path_join_nonempty startswith_nonempty by blast
  ultimately show ?thesis using False ck k m by auto
qed

lemma train_resumes_from_greatest:
  assumes "script a argv w = (oc, t)" and "Train c \<in> set t"
    and "resolve a w = Inr s" and "outdir s = PStr out"
  shows "(\<not> os_path_isdir w (path_join out (py ''hf_out'')) \<longrightarrow> c = None)
       \<and> (\<forall>listing. os_path_isdir w (path_join out (py ''hf_out''))
              \<and> os_listdir w (path_join out (py ''hf_out'')) = Inr listing \<longrightarrow>
            (filter (\<lambda>d. startswith d (py ''checkpoint-'')) listing = [] \<longrightarrow> c = None)
          \<and> (filter (\<lambda>d. startswith d (py ''checkpoint-'')) listing \<noteq> [] \<longrightarrow>
               (\<exists>n k. n \<in> set listing \<and> startswith n (py ''checkpoint-'')
                    \<and> c = Some (path_join (path_join out (py ''hf_out'')) n)
                    \<and> ckpt_sort_key (unicode_decimal w) n = Inr k
                    \<and> (\<forall>m\<in>set listing. startswith m (py ''checkpoint-'') \<longrightarrow>
                           (\<exists>j. ckpt_sort_key (unicode_decimal w) m = Inr j \<and> j \<le> k)))))"
proof -
  let ?hf = "path_join out (py ''hf_out'')"
  from assms(1) obtain res t0 where m: "main a w [] = (res, t0)" and c: "Train c \<in> set t0"
  proof (cases rule: script_cases)
    case (exit n)
    with assms(2) that show ?thesis by blast
  next
    case (uncaught e t0 evs)
    with assms(2) have "Train c \<in> set t0" by auto
    with uncaught(1) that show ?thesis by blast
  qed
  from main_train_ckpt [OF m c assms(3,4)] obtain ck where
    f: "find_ckpt w ?hf = Inr ck" and cc: "c = (if ck \<noteq> None \<and> ck \<noteq> Some [] then ck else None)"
    by (auto split: sum.splits)
  have nodir: "c = None" if "\<not> os_path_isdir w ?hf"
    using that f cc by (simp add: find_ckpt_def)
  have dir: "(filter (\<lambda>d. startswith d (py ''checkpoint-'')) listing = [] \<longrightarrow> c = None)
          \<and> (filter (\<lambda>d. startswith d (py ''checkpoint-'')) listing \<noteq> [] \<longrightarrow>
               (\<exists>n k. n \<in> set listing \<and> startswith n (py ''checkpoint-'')
                    \<and> c = Some (path_join ?hf n)
                    \<and> ckpt_sort_key (unicode_decimal w) n = Inr k
                    \<and> (\<forall>m\<in>set listing. startswith m (py ''checkpoint-'') \<longrightarrow>
                           (\<exists>j. ckpt_sort_key (unicode_decimal w) m = Inr j \<and> j \<le> k))))"
    if "os_path_isdir w ?hf" "os_listdir w ?hf = Inr listing" for listing
  proof -
    from that f have l: "latest_checkpoint (unicode_decimal w) ?hf listing = Inr ck"
      by (simp add: find_ckpt_def)
    from latest_checkpoint_max [OF l] cc show ?thesis by auto
  qed
  show ?thesis using nodir dir by blast
qed


text \<open>
  C3. A run whose \<open>hf_out\<close> holds \<open>checkpoint-5\<close>, \<open>checkpoint-20\<close> and
  \<open>checkpoint-abc\<close> does not resume from \<open>checkpoint-20\<close>: sorting the entries
  raises \<open>ValueError\<close> on the suffix \<open>abc\<close>, the exception leaves \<open>main\<close> after the
  trainer is made, and \<open>trainer.train\<close> is never called. With only \<open>checkpoint-5\<close>
  and \<open>checkpoint-20\<close> the run resumes from \<open>checkpoint-20\<close>, and with no
  checkpoint entry it trains from the start.
\<close>

theorem resume_fails_on_unparsable_suffix:
  "find_ckpt (calm_world [sample_line]
               [(py ''checkpoint-5''), (py ''checkpoint-20''), (py ''checkpoint-abc'')] PNone)
       (py ''artifacts/hf_out'') = Inl ValueError
   \<and> fst (script plain_args plain_argv
            (calm_world [sample_line]
               [(py ''checkpoint-5''), (py ''checkpoint-20''), (py ''checkpoint-abc'')] PNone))
       = Uncaught ValueError
   \<and> list_all (\<lambda>ev. case ev of Train c \<Rightarrow> False | _ \<Rightarrow> True)
       (snd (script plain_args plain_argv
            (calm_world [sample_line]
               [(py ''checkpoint-5''), (py ''checkpoint-20''), (py ''checkpoint-abc'')] PNone)))
   \<and> LogStep 5
       \<in> set (snd (script plain_args plain_argv
            (calm_world [sample_line]
               [(py ''checkpoint-5''), (py ''checkpoint-20''), (py ''checkpoint-abc'')] PNone)))
   \<and> script plain_args plain_argv
        (calm_world [sample_line] [(py ''checkpoint-5''), (py ''checkpoint-20'')] PNone)
       = (Exit 0, snd (script plain_args plain_argv
            (calm_world [sample_line] [(py ''checkpoint-5''), (py ''checkpoint-20'')] PNone)))
   \<and> Train (Some (py ''artifacts/hf_out/checkpoint-20''))
       \<in> set (snd (script plain_args plain_argv
            (calm_world [sample_line] [(py ''checkpoint-5''), (py ''checkpoint-20'')] PNone)))
   \<and> Train None
       \<in> set (snd (script plain_args plain_argv (calm_world [sample_line] [(py ''notes'')] PNone)))"
  by code_simp

section \<open>The resume flag\<close>

lemma scan_outdir_Cons:
  "rest \<noteq> [] \<Longrightarrow>
     scan_outdir (x # rest) = (if x = (py ''--outdir'') then Some (hd rest) else scan_outdir rest)"
  by (cases rest) simp_all

lemma scan_outdir_skip:
  assumes "f \<noteq> (py ''--outdir'')" and "x \<noteq> (py ''--outdir'')" and "y \<noteq> (py ''--outdir'')"
  shows "scan_outdir (pre @ f # x # post) = scan_outdir (pre @ f # y # post)"
proof (induction pre)
  case Nil
  show ?case using assms by (cases post) simp_all
next
  case (Cons p ps)
  then show ?case by (cases ps) (simp_all add: scan_outdir_Cons)
qed

lemma resume_text_not_flag: "resume_text m \<noteq> (py ''--outdir'')"
  by (cases m) (simp_all add: resume_text_def)

lemma merge_cfg_resume: "merge_cfg (a\<lparr>arg_resume := m\<rparr>) w cfg = merge_cfg a w cfg"
  by (simp add: merge_cfg_def cong: pyval.case_cong sum.case_cong)

lemma resolve_resume: "resolve (a\<lparr>arg_resume := m\<rparr>) w = resolve a w"
  by (simp add: resolve_def merge_cfg_resume cli_settings_def
      cong: pyval.case_cong sum.case_cong)

lemma main_resume: "main (a\<lparr>arg_resume := m\<rparr>) w = main a w"
  unfolding main_def resolve_resume ..

text \<open>
  C7. Two invocations that differ only in the value given to \<open>--resume\<close> (\<open>auto\<close>,
  \<open>never\<close> or \<open>force\<close>) behave the same in every world: the same exit status or
  exception and the same trace of log lines and calls, the resume decision, the training
  call, the artifacts and the error marker included.
\<close>

theorem resume_flag_ignored:
  "script (a\<lparr>arg_resume := m\<rparr>) (pre @ (py ''--resume'') # resume_text m # post) w
     = script (a\<lparr>arg_resume := m'\<rparr>) (pre @ (py ''--resume'') # resume_text m' # post) w"
proof -
  have "scan_outdir (pre @ (py ''--resume'') # resume_text m # post)
          = scan_outdir (pre @ (py ''--resume'') # resume_text m' # post)"
    by (rule scan_outdir_skip) (simp_all add: resume_text_not_flag)
  then show ?thesis
    by (simp add: script_def main_resume write_marker_def split: prod.splits sum.splits)
qed

theorem resume_flag_ignored_witness:
  "script (plain_args\<lparr>arg_resume := Never\<rparr>)
          (py ''train.py'' # (py ''--resume'') # (py ''never'') # tl plain_argv)
          (calm_world [sample_line] [(py ''checkpoint-7'')] PNone)
     = script (plain_args\<lparr>arg_resume := Auto\<rparr>)
          (py ''train.py'' # (py ''--resume'') # (py ''auto'') # tl plain_argv)
          (calm_world [sample_line] [(py ''checkpoint-7'')] PNone)
   \<and> fst (script (plain_args\<lparr>arg_resume := Never\<rparr>)
          (py ''train.py'' # (py ''--resume'') # (py ''never'') # tl plain_argv)
          (calm_world [sample_line] [(py ''checkpoint-7'')] PNone)) = Exit 0
   \<and> Train (Some (py ''artifacts/hf_out/checkpoint-7''))
        \<in> set (snd (script (plain_args\<lparr>arg_resume := Never\<rparr>)
          (py ''train.py'' # (py ''--resume'') # (py ''never'') # tl plain_argv)
          (calm_world [sample_line] [(py ''checkpoint-7'')] PNone)))"
proof -
  have same: "script (plain_args\<lparr>arg_resume := Never\<rparr>)
          (py ''train.py'' # (py ''--resume'') # (py ''never'') # tl plain_argv)
          (calm_world [sample_line] [(py ''checkpoint-7'')] PNone)
     = script (plain_args\<lparr>arg_resume := Auto\<rparr>)
          (py ''train.py'' # (py ''--resume'') # (py ''auto'') # tl plain_argv)
          (calm_world [sample_line] [(py ''checkpoint-7'')] PNone)"
    using resume_flag_ignored [where a = plain_args and m = Never and pre = "[(py ''train.py'')]"
        and post = "tl plain_argv" and w = "calm_world [sample_line] [(py ''checkpoint-7'')] PNone"
        and m' = Auto]
    by (simp add: resume_text_def)
  have zero: "fst (script (plain_args\<lparr>arg_resume := Never\<rparr>)
          (py ''train.py'' # (py ''--resume'') # (py ''never'') # tl plain_argv)
          (calm_world [sample_line] [(py ''checkpoint-7'')] PNone)) = Exit 0"
    by code_simp
  have resumed: "Train (Some (py ''artifacts/hf_out/checkpoint-7''))
        \<in> set (snd (script (plain_args\<lparr>arg_resume := Never\<rparr>)
          (py ''train.py'' # (py ''--resume'') # (py ''never'') # tl plain_argv)
          (calm_world [sample_line] [(py ''checkpoint-7'')] PNone)))"
    by code_simp
  from same zero resumed show ?thesis by blast
qed

section \<open>The error marker\<close>

lemma first_outdir_Cons:
  "first_outdir (x # xs) i \<longleftrightarrow>
     (if x = (py ''--outdir'') then i = 0 \<and> xs \<noteq> [] else (\<exists>j. i = Suc j \<and> first_outdir xs j))"
proof (cases i)
  case 0
  then show ?thesis by (auto simp add: first_outdir_def)
next
  case (Suc j)
  have "(\<forall>k<Suc j. (x # xs) ! k \<noteq> (py ''--outdir''))
          \<longleftrightarrow> x \<noteq> (py ''--outdir'') \<and> (\<forall>k<j. xs ! k \<noteq> (py ''--outdir''))"
    by (auto simp add: less_Suc_eq_0_disj)
  with Suc show ?thesis by (auto simp add: first_outdir_def)
qed

lemma scan_outdir_first:
  "scan_outdir argv = Some d \<longleftrightarrow> (\<exists>i. first_outdir argv i \<and> argv ! (i + 1) = d)"
proof (induction argv rule: scan_outdir.induct)
  case (1 x y rest)
  show ?case
  proof (cases "x = (py ''--outdir'')")
    case True
    then have "first_outdir (x # y # rest) i \<longleftrightarrow> i = 0" for i
      by (simp add: first_outdir_Cons)
    with True show ?thesis by simp
  next
    case False
    have "(\<exists>i. first_outdir (x # y # rest) i \<and> (x # y # rest) ! (i + 1) = d)
            \<longleftrightarrow> (\<exists>j. first_outdir (y # rest) j \<and> (y # rest) ! (j + 1) = d)"
      using False by (auto simp add: first_outdir_Cons [of x])
    with False 1 show ?thesis by simp
  qed
qed (simp_all add: first_outdir_def)

lemma scan_outdir_none: "scan_outdir argv = None \<longleftrightarrow> (\<forall>i. \<not> first_outdir argv i)"
  using scan_outdir_first [of argv] by (cases "scan_outdir argv") auto

text \<open>
  C8. When \<open>main\<close> raises an exception, the script ends with that same exception raised
  again. Before that, if \<open>--outdir\<close> stands on the command line followed by a
  non-empty argument, the handler makes that directory and, when that worked, appends
  the exception's text to \<open>error.txt\<close> in it; the arguments and the configuration that
  \<open>main\<close> resolved play no part. With no such argument nothing is written.
\<close>

theorem error_marker:
  assumes "main a w [] = (Inl e, t)"
  shows "fst (script a argv w) = Uncaught e
     \<and> (\<forall>i. first_outdir argv i \<and> argv ! (i + 1) \<noteq> [] \<longrightarrow>
          snd (script a argv w) =
            t @ MakeDirs (argv ! (i + 1)) #
              (if os_makedirs w (argv ! (i + 1)) = None
               then [AppendErrorText (path_join (argv ! (i + 1)) (py ''error.txt'')) e] else []))
     \<and> ((\<forall>i. \<not> first_outdir argv i) \<longrightarrow> snd (script a argv w) = t)"
proof -
  have s: "script a argv w = (Uncaught e, snd (write_marker w argv e t))"
    using assms by (simp add: script_def)
  have found: "snd (write_marker w argv e t) =
            t @ MakeDirs (argv ! (i + 1)) #
              (if os_makedirs w (argv ! (i + 1)) = None
               then [AppendErrorText (path_join (argv ! (i + 1)) (py ''error.txt'')) e] else [])"
    if "first_outdir argv i" and "argv ! (i + 1) \<noteq> []" for i
  proof -
    from that(1) have "scan_outdir argv = Some (argv ! (i + 1))"
      using scan_outdir_first by blast
    with that(2) show ?thesis
      by (simp add: write_marker_def andthen_def bind_def attempt_def Let_def split: option.splits)
  qed
  have none: "snd (write_marker w argv e t) = t" if "\<forall>i. \<not> first_outdir argv i"
    using that scan_outdir_none [of argv] by (simp add: write_marker_def ret_def)
  show ?thesis using s found none by simp
qed

theorem error_marker_witness:
  "main marker_args marker_world []
     = (Inl TypeError, [LogBaseModel (py ''meta-llama/Llama-3.2-1B-Instruct'')
                                     (py ''meta-llama/Llama-3.2-1B-Instruct'')])
   \<and> first_outdir marker_argv 7
   \<and> marker_argv ! (7 + 1) = (py ''o'')
   \<and> os_makedirs marker_world (py ''o'') = None
   \<and> fst (script marker_args marker_argv marker_world) = Uncaught TypeError
   \<and> snd (script marker_args marker_argv marker_world)
       = [LogBaseModel (py ''meta-llama/Llama-3.2-1B-Instruct'') (py ''meta-llama/Llama-3.2-1B-Instruct''),
          MakeDirs (py ''o''), AppendErrorText (py ''o/error.txt'') TypeError]"
proof -
  have m: "main marker_args marker_world []
     = (Inl TypeError, [LogBaseModel (py ''meta-llama/Llama-3.2-1B-Instruct'')
                                     (py ''meta-llama/Llama-3.2-1B-Instruct'')])"
    by code_simp
  have "scan_outdir marker_argv = Some (py ''o'')"
    by (simp add: marker_argv_def)
  then obtain i where i: "first_outdir marker_argv i" "marker_argv ! (i + 1) = (py ''o'')"
    using scan_outdir_first by blast
  have "i = 7"
  proof (rule ccontr)
    assume "i \<noteq> 7"
    with i show False
      by (auto simp add: first_outdir_def marker_argv_def nth_Cons' split: if_splits)
  qed
  with i have f: "first_outdir marker_argv 7" and v: "marker_argv ! (7 + 1) = (py ''o'')"
    by simp_all
  have d: "os_makedirs marker_world (py ''o'') = None"
    by (simp add: marker_world_def calm_world_def)
  have j: "path_join (py ''o'') (py ''error.txt'') = (py ''o/error.txt'')"
    by code_simp
  have ne: "py ''o'' \<noteq> []"
    by (simp add: py_def)
  from error_marker [OF m, of marker_argv] f v d j ne
  have "fst (script marker_args marker_argv marker_world) = Uncaught TypeError
      \<and> snd (script marker_args marker_argv marker_world)
       = [LogBaseModel (py ''meta-llama/Llama-3.2-1B-Instruct'') (py ''meta-llama/Llama-3.2-1B-Instruct''),
          MakeDirs (py ''o''), AppendErrorText (py ''o/error.txt'') TypeError]"
    by auto
  with m f v d show ?thesis by simp
qed

section \<open>The Modelfile\<close>

text \<open>
  C1. The Modelfile does not name the base model of the run. With the default base model
  \<open>meta-llama/Llama-3.2-1B-Instruct\<close> the run loads and adapts that model, and records
  it in the adapter configuration it writes when that file is missing, but the Modelfile
  it writes starts with \<open>FROM llama3:8b\<close>, the tag of \<open>Meta-Llama-3-8B-Instruct\<close>. The
  adapter path, the system preamble, the template and the two parameters are in the
  text as claimed.
\<close>

theorem modelfile_names_fixed_base:
  "fst (script plain_args plain_argv (weights_only_world [sample_line] [] PNone)) = Exit 0
   \<and> LoadModel (py ''meta-llama/Llama-3.2-1B-Instruct'')
        \<in> set (snd (script plain_args plain_argv (weights_only_world [sample_line] [] PNone)))
   \<and> WriteAdapterConfig (py ''artifacts/adapter_config.json'')
          (fallback (py ''meta-llama/Llama-3.2-1B-Instruct''))
        \<in> set (snd (script plain_args plain_argv (weights_only_world [sample_line] [] PNone)))
   \<and> WriteFile (py ''artifacts/Modelfile'') modelfile_text
        \<in> set (snd (script plain_args plain_argv (weights_only_world [sample_line] [] PNone)))
   \<and> take 15 modelfile_text = (py ''FROM llama3:8b\<newline>'')
   \<and> normalize_base_model_id ul (py ''llama3:8b'') = (py ''meta-llama/Meta-Llama-3-8B-Instruct'')"
  by code_simp


end
